theory Spec2Isabelle
  imports Complex_Main
begin

section \<open>Brownian motion targets of the inference gym\<close>

text \<open>
  A shallow embedding of \<^verbatim>\<open>inference_gym/targets/brownian_motion.py\<close>.
  The module evaluates its definitions on tensors; here one sample is followed, so every
  entry of \<^verbatim>\<open>values\<close> is a scalar and \<^verbatim>\<open>locs\<close> is a vector with one entry
  per timestep. A finite tensor entry is an exact real number: rounding, overflow and
  underflow of the 32-bit arithmetic are not part of the model.
\<close>

subsection \<open>Tensor entries\<close>

datatype fl = Fin real | PInf | NInf | NaN

text \<open>\<^verbatim>\<open>tf.math.is_finite\<close>, on one entry.\<close>

fun is_finite :: "fl \<Rightarrow> bool" where
  "is_finite (Fin x) = True"
| "is_finite PInf = False"
| "is_finite NInf = False"
| "is_finite NaN = False"

text \<open>Addition of entries: exact on finite entries, with the usual rules for the others.\<close>

fun fl_add :: "fl \<Rightarrow> fl \<Rightarrow> fl" where
  "fl_add (Fin a) (Fin b) = Fin (a + b)"
| "fl_add NaN y = NaN"
| "fl_add x NaN = NaN"
| "fl_add PInf NInf = NaN"
| "fl_add NInf PInf = NaN"
| "fl_add PInf y = PInf"
| "fl_add x PInf = PInf"
| "fl_add NInf y = NInf"
| "fl_add x NInf = NInf"

text \<open>The failures of the interpreter and of the tensor library that the module can meet.\<close>

datatype error = IndexError | ValueError | TypeError | InvalidArgumentError

definition and_then :: "error + 'a \<Rightarrow> ('a \<Rightarrow> error + 'b) \<Rightarrow> error + 'b" where
  "and_then r f = (case r of Inl e \<Rightarrow> Inl e | Inr x \<Rightarrow> f x)"

subsection \<open>The tensor operations the module calls\<close>

text \<open>
  \<^verbatim>\<open>tf.stack(values, axis=-1)\<close> on a sequence of scalars is the vector of these
  scalars. With an axis other than 0 the library reads \<^verbatim>\<open>values[0]\<close> to learn the
  shape of the elements, so an empty sequence raises.
\<close>

definition stack :: "fl list \<Rightarrow> error + fl list" where
  "stack values = (if values = [] then Inl IndexError else Inr values)"

text \<open>
  Binary tensor operations broadcast their operands: two vectors are combined entry by
  entry when they have the same length, a vector of length one is repeated along the
  other one, and any other pair of lengths is rejected by the library.
\<close>

definition broadcast :: "'a list \<Rightarrow> 'b list \<Rightarrow> error + ('a \<times> 'b) list" where
  "broadcast xs ys =
     (if length xs = length ys then Inr (zip xs ys)
      else if length xs = 1 then Inr (map (\<lambda>y. (hd xs, y)) ys)
      else if length ys = 1 then Inr (map (\<lambda>x. (x, hd ys)) xs)
      else Inl InvalidArgumentError)"

text \<open>\<^verbatim>\<open>tf.where(cond, xs, y)\<close> with a vector condition and a scalar alternative.\<close>

definition tf_where :: "bool list \<Rightarrow> fl list \<Rightarrow> fl \<Rightarrow> error + fl list" where
  "tf_where cond xs y =
     and_then (broadcast cond xs) (\<lambda>ps. Inr (map (\<lambda>(c, x). if c then x else y) ps))"

text \<open>\<^verbatim>\<open>tf.reduce_sum(xs, axis=-1)\<close> of a vector; the empty sum is zero.\<close>

definition reduce_sum :: "fl list \<Rightarrow> fl" where
  "reduce_sum xs = foldr fl_add xs (Fin 0)"

subsection \<open>The Normal log-density\<close>

text \<open>
  Modelled from the spec: \<^verbatim>\<open>tfd.Normal\<close> is not among the sources. The spec calls
  \<^verbatim>\<open>log_prob\<close> the log-density of the Normal distribution; for a real mean, a
  positive real scale and a real point this is the logarithm of
  \<open>exp (- ((x - loc) / scale)\<^sup>2 / 2) / (scale * sqrt (2 * pi))\<close>.
\<close>

definition normal_log_density :: "real \<Rightarrow> real \<Rightarrow> real \<Rightarrow> real" where
  "normal_log_density loc scale x =
     - ((x - loc) / scale)\<^sup>2 / 2 - ln scale - ln (2 * pi) / 2"

text \<open>
  Modelled from the spec: the log-density on tensor entries. Where the density is not
  defined (an entry that is not finite, or a scale that is not positive) the result is
  not a number; nothing below depends on which value the library returns there.
\<close>

fun Normal_log_prob :: "fl \<Rightarrow> fl \<Rightarrow> fl \<Rightarrow> fl" where
  "Normal_log_prob (Fin loc) (Fin scale) (Fin x) =
     (if 0 < scale then Fin (normal_log_density loc scale x) else NaN)"
| "Normal_log_prob loc scale x = NaN"

text \<open>
  \<^verbatim>\<open>tfd.Normal(loc=latents, scale=scale[..., tf.newaxis]).log_prob(xs)\<close>: the scale has
  length one and is repeated; the means and the points broadcast against each other.
\<close>

definition Normal_log_prob_vec :: "fl list \<Rightarrow> fl \<Rightarrow> fl list \<Rightarrow> error + fl list" where
  "Normal_log_prob_vec latents scale xs =
     and_then (broadcast latents xs)
       (\<lambda>ps. Inr (map (\<lambda>(loc, x). Normal_log_prob loc scale x) ps))"

subsection \<open>The likelihood\<close>

text \<open>
  \<^verbatim>\<open>brownian_motion_log_likelihood_fn(values, locs, observation_noise_scale=None)\<close>.
  Without a fixed scale the first two entries of \<^verbatim>\<open>values\<close> are unpacked (the
  unpacking raises unless the slice \<^verbatim>\<open>values[:2]\<close> has two elements) and the rest are
  the latent positions.
\<close>

definition split_scales :: "fl list \<Rightarrow> fl option \<Rightarrow> error + (fl \<times> fl list)" where
  "split_scales values observation_noise_scale =
     (case observation_noise_scale of
        None \<Rightarrow>
          (case take 2 values of
             [_, observation_noise_scale] \<Rightarrow> Inr (observation_noise_scale, drop 2 values)
           | _ \<Rightarrow> Inl ValueError)
      | Some observation_noise_scale \<Rightarrow> Inr (observation_noise_scale, values))"

definition brownian_motion_log_likelihood_fn ::
  "fl list \<Rightarrow> fl list \<Rightarrow> fl option \<Rightarrow> error + fl" where
  "brownian_motion_log_likelihood_fn values locs observation_noise_scale =
     and_then (split_scales values observation_noise_scale)
       (\<lambda>(observation_noise_scale, values).
     and_then (stack values)
       (\<lambda>latents.
     and_then (tf_where (map is_finite locs) locs (Fin 0))
       (\<lambda>observed.
     and_then (Normal_log_prob_vec latents observation_noise_scale observed)
       (\<lambda>lps.
     and_then (tf_where (map is_finite locs) lps (Fin 0))
       (\<lambda>masked. Inr (reduce_sum masked))))))"

subsection \<open>The generative processes\<close>

text \<open>
  A generative process is a coroutine: it yields a distribution, is resumed with the
  value sampled from it, and goes on from there. \<^verbatim>\<open>Root\<close> marks a distribution
  that depends on no earlier sample.
\<close>

datatype dist = Normal fl fl string | LogNormal fl fl string

datatype node = Root dist | Plain dist

datatype gen = Stop | Yield node "fl \<Rightarrow> gen"

text \<open>\<^verbatim>\<open>'{}'.format(t)\<close> for a number \<^verbatim>\<open>t\<close> that is not negative.\<close>

definition digit :: "nat \<Rightarrow> char" where
  "digit d = ''0123456789'' ! d"

function str :: "nat \<Rightarrow> string" where
  "str n = (if n < 10 then [digit n] else str (n div 10) @ [digit (n mod 10)])"
  by pat_completeness auto
termination
  by (relation "measure id") auto

declare str.simps [simp del]

text \<open>
  The body of \<^verbatim>\<open>for t in range(1, num_timesteps)\<close>, over the timesteps that are
  left; \<^verbatim>\<open>new\<close> is the value the coroutine was resumed with.
\<close>

primrec prior_loop :: "nat list \<Rightarrow> fl \<Rightarrow> fl \<Rightarrow> gen" where
  "prior_loop [] innovation_noise_scale new = Stop"
| "prior_loop (t # ts) innovation_noise_scale new =
     Yield (Plain (Normal new innovation_noise_scale (''x_'' @ str t)))
       (\<lambda>new. prior_loop ts innovation_noise_scale new)"

text \<open>
  \<^verbatim>\<open>brownian_motion_prior_fn(num_timesteps, innovation_noise_scale)\<close>;
  \<^verbatim>\<open>range(1, num_timesteps)\<close> is empty when \<^verbatim>\<open>num_timesteps\<close> is 1 or less.
\<close>

definition brownian_motion_prior_fn :: "int \<Rightarrow> fl \<Rightarrow> gen" where
  "brownian_motion_prior_fn num_timesteps innovation_noise_scale =
     (let prior_loc = Fin 0 in
      Yield (Root (Normal prior_loc innovation_noise_scale ''x_0''))
        (\<lambda>new. prior_loop [1..<nat num_timesteps] innovation_noise_scale new))"

text \<open>\<^verbatim>\<open>brownian_motion_unknown_scales_prior_fn(num_timesteps)\<close>.\<close>

definition brownian_motion_unknown_scales_prior_fn :: "int \<Rightarrow> gen" where
  "brownian_motion_unknown_scales_prior_fn num_timesteps =
     Yield (Root (LogNormal (Fin 0) (Fin 2) ''innovation_noise_scale''))
       (\<lambda>innovation_noise_scale.
     Yield (Root (LogNormal (Fin 0) (Fin 2) ''observation_noise_scale''))
       (\<lambda>_. brownian_motion_prior_fn num_timesteps innovation_noise_scale))"

text \<open>
  Running a coroutine to its end on the samples \<^verbatim>\<open>vs\<close>: each yielded distribution is
  answered with the next sample. The run gives the distributions that were yielded, and
  nothing when the samples run out before the coroutine ends or are left over after it.
\<close>

fun drive :: "gen \<Rightarrow> fl list \<Rightarrow> node list option" where
  "drive Stop [] = Some []"
| "drive Stop (v # vs) = None"
| "drive (Yield d k) [] = None"
| "drive (Yield d k) (v # vs) = map_option ((#) d) (drive (k v) vs)"

subsection \<open>The joint prior and its bijector\<close>

text \<open>
  Modelled from the spec: \<^verbatim>\<open>tfd.JointDistributionCoroutine\<close> is not among the sources.
  The joint prior has one component for each distribution its coroutine yields; the
  library finds them by running the coroutine on a sample of its own, for which a zero
  stands here. Every component holds one 32-bit float and has the shape of a scalar.
\<close>

datatype tf_dtype = float32

primrec variables :: "gen \<Rightarrow> node list" where
  "variables Stop = []"
| "variables (Yield d k) = d # variables (k (Fin 0))"

definition dtype_of :: "gen \<Rightarrow> tf_dtype list" where
  "dtype_of prior = map (\<lambda>_. float32) (variables prior)"

definition event_shape_of :: "gen \<Rightarrow> nat list list" where
  "event_shape_of prior = map (\<lambda>_. []) (variables prior)"

text \<open>
  Modelled from the spec: the structure type of the prior is not among the sources, and
  the spec leaves the validation of shapes to the framework.
  \<^verbatim>\<open>type(self._prior_dist.dtype)(*args)\<close> constructs a value of that type: a tuple
  type with one named field for each component of the prior, whose constructor takes
  one positional argument for each field and raises on any other number.
\<close>

definition struct_tuple :: "'f list \<Rightarrow> 'a list \<Rightarrow> error + 'a list" where
  "struct_tuple fields args =
     (if length args = length fields then Inr args else Inl TypeError)"

text \<open>
  Modelled from the spec: \<^verbatim>\<open>tfb.Softplus\<close> and \<^verbatim>\<open>tfb.Identity\<close> are not among the
  sources. They are the transformations of an unconstrained real number by
  \<open>x \<mapsto> ln (1 + exp x)\<close> and by \<open>x \<mapsto> x\<close>; a tuple of bijectors transforms a
  tuple of as many numbers, component by component.
\<close>

datatype bijector = Softplus | Identity



subsection \<open>The models\<close>

datatype tensor = Scalar fl | Vector "fl list"

record 'r sample_transformation =
  fn :: "fl list \<Rightarrow> error + 'r"
  st_pretty_name :: string
  st_dtype :: "(string \<rightharpoonup> tf_dtype) option"

record 'r model =
  prior_dist :: gen
  log_likelihood_fn :: "fl list \<Rightarrow> error + fl"
  default_event_space_bijector :: "bijector list"
  event_shape :: "nat list list"
  dtype :: "tf_dtype list"
  model_name :: string
  model_pretty_name :: string
  sample_transformations :: "string \<rightharpoonup> 'r sample_transformation"

text \<open>\<^verbatim>\<open>BrownianMotion.__init__\<close>; \<^verbatim>\<open>locs.shape[0]\<close> is the length of the vector.\<close>

definition BrownianMotion ::
  "fl list \<Rightarrow> fl \<Rightarrow> fl \<Rightarrow> string \<Rightarrow> string \<Rightarrow> error + (fl list) model" where
  "BrownianMotion locs innovation_noise_scale observation_noise_scale name pretty_name =
     (let num_timesteps = int (length locs);
          prior = brownian_motion_prior_fn num_timesteps innovation_noise_scale;
          likelihood = (\<lambda>values.
            brownian_motion_log_likelihood_fn values locs (Some observation_noise_scale));
          ext_identity = (\<lambda>params. stack params);
          transformations = [''identity'' \<mapsto>
            \<lparr>fn = ext_identity, st_pretty_name = ''Identity'', st_dtype = None\<rparr>]
      in and_then
           (struct_tuple (dtype_of prior) (replicate (nat num_timesteps) Identity))
           (\<lambda>event_space_bijector. Inr
              \<lparr>prior_dist = prior,
               log_likelihood_fn = likelihood,
               default_event_space_bijector = event_space_bijector,
               event_shape = event_shape_of prior,
               dtype = dtype_of prior,
               model_name = name,
               model_pretty_name = pretty_name,
               sample_transformations = transformations\<rparr>))"

text \<open>
  The \<^verbatim>\<open>_ext_identity\<close> of the model with unknown scales builds a dictionary; the two
  indexings and the stacking of \<^verbatim>\<open>params[2:]\<close> raise on a sequence that is too short.
\<close>

definition unknown_scales_ext_identity :: "fl list \<Rightarrow> error + (string \<rightharpoonup> tensor)" where
  "unknown_scales_ext_identity params =
     (if length params < 2 then Inl IndexError
      else and_then (stack (drop 2 params))
        (\<lambda>stacked. Inr
           [''innovation_noise_scale'' \<mapsto> Scalar (params ! 0),
            ''observation_noise_scale'' \<mapsto> Scalar (params ! 1),
            ''locs'' \<mapsto> Vector stacked]))"

text \<open>\<^verbatim>\<open>BrownianMotionUnknownScales.__init__\<close>.\<close>

definition BrownianMotionUnknownScales ::
  "fl list \<Rightarrow> string \<Rightarrow> string \<Rightarrow> error + (string \<rightharpoonup> tensor) model" where
  "BrownianMotionUnknownScales locs name pretty_name =
     (let num_timesteps = int (length locs);
          prior = brownian_motion_unknown_scales_prior_fn num_timesteps;
          likelihood = (\<lambda>values. brownian_motion_log_likelihood_fn values locs None);
          transformations = [''identity'' \<mapsto>
            \<lparr>fn = unknown_scales_ext_identity, st_pretty_name = ''Identity'',
             st_dtype = Some [''innovation_noise_scale'' \<mapsto> float32,
                              ''observation_noise_scale'' \<mapsto> float32,
                              ''locs'' \<mapsto> float32]\<rparr>]
      in and_then
           (struct_tuple (dtype_of prior)
              ([Softplus, Softplus] @ replicate (nat num_timesteps) Identity))
           (\<lambda>event_space_bijector. Inr
              \<lparr>prior_dist = prior,
               log_likelihood_fn = likelihood,
               default_event_space_bijector = event_space_bijector,
               event_shape = event_shape_of prior,
               dtype = dtype_of prior,
               model_name = name,
               model_pretty_name = pretty_name,
               sample_transformations = transformations\<rparr>))"

text \<open>
  The two models on the data set with missing middle observations. The data set
  (\<^verbatim>\<open>data.brownian_motion_missing_middle_observations()\<close>) is not among the sources and
  is a parameter here; it is a dictionary with these three keys.
\<close>

record dataset =
  ds_locs :: "fl list"
  ds_innovation_noise_scale :: fl
  ds_observation_noise_scale :: fl

definition BrownianMotionMissingMiddleObservations ::
  "dataset \<Rightarrow> error + (fl list) model" where
  "BrownianMotionMissingMiddleObservations dataset =
     BrownianMotion (ds_locs dataset) (ds_innovation_noise_scale dataset)
       (ds_observation_noise_scale dataset)
       ''brownian_motion_missing_middle_observations''
       ''Brownian Motion Missing Middle Observations''"

definition BrownianMotionUnknownScalesMissingMiddleObservations ::
  "dataset \<Rightarrow> error + (string \<rightharpoonup> tensor) model" where
  "BrownianMotionUnknownScalesMissingMiddleObservations dataset =
     BrownianMotionUnknownScales (ds_locs dataset)
       ''brownian_motion_unknown_scales_missing_middle_observations''
       ''Brownian Motion with Unknown Scales''"


definition prior_distribution :: "'r model \<Rightarrow> gen \<times> 'r model" where
  "prior_distribution self = (prior_dist self, self)"

text \<open>
  The points at which the likelihood evaluates the density:
  \<^verbatim>\<open>tf.where(tf.math.is_finite(locs), locs, 0.)\<close>, written out.
\<close>

definition observed :: "fl list \<Rightarrow> fl list" where
  "observed locs = map (\<lambda>l. if is_finite l then l else Fin 0) locs"

section \<open>Properties\<close>

subsection \<open>Facts about the tensor operations\<close>

lemma fl_add_zero_left: "fl_add (Fin 0) x = x"
  by (cases x) simp_all

lemma fl_add_zero_right: "fl_add x (Fin 0) = x"
  by (cases x) simp_all

lemma and_then_Inr: "and_then (Inr x) f = f x"
  by (simp add: and_then_def)

lemma and_then_Inl: "and_then (Inl e) f = Inl e"
  by (simp add: and_then_def)

lemma broadcast_same: "length xs = length ys \<Longrightarrow> broadcast xs ys = Inr (zip xs ys)"
  by (simp add: broadcast_def)

lemma tf_where_same:
  "length cond = length xs \<Longrightarrow>
   tf_where cond xs y = Inr (map (\<lambda>(c, x). if c then x else y) (zip cond xs))"
  by (simp add: tf_where_def broadcast_same and_then_Inr)

lemma observed_eq: "tf_where (map is_finite locs) locs (Fin 0) = Inr (observed locs)"
  unfolding observed_def
  by (simp add: tf_where_same zip_map1 map_idI) (induction locs; simp)

lemma reduce_sum_masked:
  "reduce_sum (map (\<lambda>(c, x). if c then x else Fin 0) ps) = reduce_sum (map snd (filter fst ps))"
  by (induction ps) (auto simp: reduce_sum_def fl_add_zero_left)

lemma reduce_sum_Fin: "reduce_sum (map Fin rs) = Fin (sum_list rs)"
  by (induction rs) (simp_all add: reduce_sum_def)

lemma lik_unfold:
  "brownian_motion_log_likelihood_fn vs locs (Some s) =
     and_then (stack vs) (\<lambda>latents.
     and_then (Normal_log_prob_vec latents s (observed locs)) (\<lambda>lps.
     and_then (tf_where (map is_finite locs) lps (Fin 0)) (\<lambda>masked.
       Inr (reduce_sum masked))))"
  by (simp add: brownian_motion_log_likelihood_fn_def split_scales_def and_then_Inr observed_eq)


lemma masked_terms:
  "length vs = length locs \<Longrightarrow>
   map snd (filter fst (zip (map is_finite locs)
      (map (\<lambda>(loc, x). Normal_log_prob loc s x) (zip vs (observed locs))))) =
   map (\<lambda>(loc, x). Normal_log_prob loc s x)
      (filter (\<lambda>(loc, x). is_finite x) (zip vs locs))"
  unfolding observed_def by (induction vs locs rule: list_induct2) auto

lemma lik_same_length:
  assumes "vs \<noteq> []" "length vs = length locs"
  shows "brownian_motion_log_likelihood_fn vs locs (Some s) =
     Inr (reduce_sum (map (\<lambda>(loc, x). Normal_log_prob loc s x)
            (filter (\<lambda>(loc, x). is_finite x) (zip vs locs))))"
proof -
  have len: "length vs = length (observed locs)"
    using assms(2) by (simp add: observed_def)
  have lps: "Normal_log_prob_vec vs s (observed locs) =
        Inr (map (\<lambda>(loc, x). Normal_log_prob loc s x) (zip vs (observed locs)))"
    using len by (simp add: Normal_log_prob_vec_def broadcast_same and_then_Inr)
  have "brownian_motion_log_likelihood_fn vs locs (Some s) =
      Inr (reduce_sum (map snd (filter fst (zip (map is_finite locs)
        (map (\<lambda>(loc, x). Normal_log_prob loc s x) (zip vs (observed locs)))))))"
    using assms len
    by (simp add: lik_unfold stack_def and_then_Inr lps tf_where_same reduce_sum_masked)
  then show ?thesis using assms(2) by (simp only: masked_terms)
qed

subsection \<open>The likelihood is the sum over the observed timesteps\<close>

text \<open>
  Claim C1, as the spec states it, holds for every \<^verbatim>\<open>locs\<close> array. It fails on the
  empty one: with no timestep there is no latent position to stack, and the call raises
  instead of returning the empty sum.
\<close>

theorem log_likelihood_empty_raises:
  "brownian_motion_log_likelihood_fn [] [] (Some (Fin 1)) = Inl IndexError"
  by (simp add: lik_unfold stack_def and_then_Inl)

text \<open>
  Claim C1, amended: for every \<^verbatim>\<open>locs\<close> array that is not empty and every
  assignment of latent positions, one for each timestep, the likelihood returns one
  scalar, the sum of the log-densities of the observed locs over exactly the timesteps
  whose entry of \<^verbatim>\<open>locs\<close> is not missing (is finite). With real latent positions
  and a positive observation noise scale that is the sum, over all timesteps, of the
  Normal log-density of the observed loc (mean: the latent position of the timestep;
  scale: the observation noise scale) where the observation is there, and of exactly
  zero where it is missing.
\<close>

theorem log_likelihood_sum_of_observed:
  assumes "locs \<noteq> []" "length vs = length locs"
  shows "brownian_motion_log_likelihood_fn vs locs (Some s) =
       Inr (reduce_sum (map (\<lambda>(loc, x). Normal_log_prob loc s x)
              (filter (\<lambda>(loc, x). is_finite x) (zip vs locs)))) \<and>
     (vs = map Fin ls \<and> s = Fin \<sigma> \<and> 0 < \<sigma> \<longrightarrow>
        brownian_motion_log_likelihood_fn vs locs (Some s) =
          Inr (Fin (\<Sum>(l, x)\<leftarrow>zip ls locs.
                 case x of Fin x \<Rightarrow> normal_log_density l \<sigma> x | _ \<Rightarrow> 0)))"
proof (intro conjI impI)
  have "vs \<noteq> []" using assms by auto
  then show general: "brownian_motion_log_likelihood_fn vs locs (Some s) =
       Inr (reduce_sum (map (\<lambda>(loc, x). Normal_log_prob loc s x)
              (filter (\<lambda>(loc, x). is_finite x) (zip vs locs))))"
    using assms(2) by (rule lik_same_length)
  assume real: "vs = map Fin ls \<and> s = Fin \<sigma> \<and> 0 < \<sigma>"
  then have len: "length ls = length locs" and pos: "0 < \<sigma>"
    using assms(2) by auto
  have terms: "map (\<lambda>(loc, x). Normal_log_prob loc (Fin \<sigma>) x)
            (filter (\<lambda>(loc, x). is_finite x) (zip (map Fin ls) locs)) =
        map Fin (map (\<lambda>(l, x). case x of Fin x \<Rightarrow> normal_log_density l \<sigma> x | _ \<Rightarrow> 0)
            (filter (\<lambda>(l, x). is_finite x) (zip ls locs)))"
    using len pos by (induction ls locs rule: list_induct2) (auto split: fl.splits)
  have drop0: "sum_list (map (\<lambda>(l, x). case x of Fin x \<Rightarrow> normal_log_density l \<sigma> x | _ \<Rightarrow> 0)
            (filter (\<lambda>(l, x). is_finite x) (zip ls locs))) =
       (\<Sum>(l, x)\<leftarrow>zip ls locs. case x of Fin x \<Rightarrow> normal_log_density l \<sigma> x | _ \<Rightarrow> 0)"
    using len by (induction ls locs rule: list_induct2) (auto split: fl.splits)
  have "brownian_motion_log_likelihood_fn vs locs (Some s) =
     Inr (reduce_sum (map (\<lambda>(loc, x). Normal_log_prob loc (Fin \<sigma>) x)
            (filter (\<lambda>(loc, x). is_finite x) (zip (map Fin ls) locs))))"
    using general real by simp
  also have "\<dots> = Inr (Fin (\<Sum>(l, x)\<leftarrow>zip ls locs.
            case x of Fin x \<Rightarrow> normal_log_density l \<sigma> x | _ \<Rightarrow> 0))"
    by (simp only: terms reduce_sum_Fin drop0)
  finally show "brownian_motion_log_likelihood_fn vs locs (Some s) =
          Inr (Fin (\<Sum>(l, x)\<leftarrow>zip ls locs.
                 case x of Fin x \<Rightarrow> normal_log_density l \<sigma> x | _ \<Rightarrow> 0))" .
qed

text \<open>Claim C1, amended, on two timesteps of which the second is missing.\<close>

theorem log_likelihood_sum_of_observed_witness:
  "[Fin 3, NaN] \<noteq> [] \<and> length [Fin 1, Fin 2] = length [Fin 3, NaN] \<and> (0::real) < 1 \<and>
   brownian_motion_log_likelihood_fn [Fin 1, Fin 2] [Fin 3, NaN] (Some (Fin 1)) =
     Inr (Fin (normal_log_density 1 1 3))"
  using log_likelihood_sum_of_observed [where locs = "[Fin 3, NaN]" and vs = "[Fin 1, Fin 2]"
      and ls = "[1, 2]" and s = "Fin 1" and \<sigma> = 1]
  by (simp add: reduce_sum_def)

subsection \<open>Unknown scales: only the second entry is used as a scale\<close>


subsection \<open>The mask is finiteness\<close>




subsection \<open>Missing observations never reach the result\<close>









subsection \<open>The generative processes yield a random walk\<close>

lemma drive_prior_loop:
  "drive (prior_loop ts s new) vs =
     (if length vs = length ts
      then Some (map (\<lambda>(t, loc). Plain (Normal loc s (''x_'' @ str t))) (zip ts (new # vs)))
      else None)"
proof (induction ts arbitrary: new vs)
  case Nil
  then show ?case by (cases vs) simp_all
next
  case (Cons t ts)
  then show ?case by (cases vs) simp_all
qed

lemma drive_prior:
  "drive (brownian_motion_prior_fn n s) vs =
     (if length vs = max 1 (nat n)
      then Some (Root (Normal (Fin 0) s ''x_0'') #
             map (\<lambda>(t, loc). Plain (Normal loc s (''x_'' @ str t))) (zip [1..<nat n] vs))
      else None)"
  by (cases vs) (auto simp: brownian_motion_prior_fn_def drive_prior_loop)

lemma drive_unknown_scales:
  "drive (brownian_motion_unknown_scales_prior_fn n) vs =
     (case vs of
        a # b # rest \<Rightarrow>
          map_option (\<lambda>ds. Root (LogNormal (Fin 0) (Fin 2) ''innovation_noise_scale'') #
                           Root (LogNormal (Fin 0) (Fin 2) ''observation_noise_scale'') # ds)
            (drive (brownian_motion_prior_fn n a) rest)
      | _ \<Rightarrow> None)"
  by (auto simp: brownian_motion_unknown_scales_prior_fn_def option.map_comp comp_def
      split: list.splits)

lemma latent_nodes:
  "0 < m \<Longrightarrow> length vs = m \<Longrightarrow>
   Root (Normal (Fin 0) s ''x_0'') #
     map (\<lambda>(t, loc). Plain (Normal loc s (''x_'' @ str t))) (zip [1..<m] vs) =
   map (\<lambda>t. (if t = 0 then Root else Plain)
          (Normal (if t = 0 then Fin 0 else vs ! (t - 1)) s (''x_'' @ str t))) [0..<m]"
proof -
  assume m: "0 < m" and len: "length vs = m"
  have "[0..<m] = 0 # [1..<m]" using m by (simp add: upt_conv_Cons)
  moreover have "map (\<lambda>(t, loc). Plain (Normal loc s (''x_'' @ str t))) (zip [1..<m] vs) =
      map (\<lambda>t. (if t = 0 then Root else Plain)
          (Normal (if t = 0 then Fin 0 else vs ! (t - 1)) s (''x_'' @ str t))) [1..<m]"
    using len by (auto simp: list_eq_iff_nth_eq)
  moreover have "str 0 = ''0''" by (simp add: str.simps digit_def)
  ultimately show ?thesis by simp
qed

text \<open>
  Claim C2: for \<^verbatim>\<open>num_timesteps\<close> at least 1 the prior process runs to its end on
  exactly \<^verbatim>\<open>num_timesteps\<close> samples and yields as many Normal distributions: the
  first with mean zero, the one of timestep \<^verbatim>\<open>t\<close> with the sample of timestep
  \<^verbatim>\<open>t - 1\<close> for its mean, and all with the one innovation noise scale.
\<close>

theorem prior_yields_random_walk:
  assumes "1 \<le> num_timesteps"
  shows "drive (brownian_motion_prior_fn num_timesteps innovation_noise_scale) vs =
     (if length vs = nat num_timesteps
      then Some (map (\<lambda>t. (if t = 0 then Root else Plain)
                   (Normal (if t = 0 then Fin 0 else vs ! (t - 1)) innovation_noise_scale
                      (''x_'' @ str t)))
                 [0..<nat num_timesteps])
      else None)"
proof -
  have m: "max 1 (nat num_timesteps) = nat num_timesteps" "0 < nat num_timesteps"
    using assms by simp_all
  show ?thesis
  proof (cases "length vs = nat num_timesteps")
    case True
    have "drive (brownian_motion_prior_fn num_timesteps innovation_noise_scale) vs =
        Some (Root (Normal (Fin 0) innovation_noise_scale ''x_0'') #
             map (\<lambda>(t, loc). Plain (Normal loc innovation_noise_scale (''x_'' @ str t)))
               (zip [1..<nat num_timesteps] vs))"
      using True by (simp only: drive_prior m refl if_True)
    also have "\<dots> = Some (map (\<lambda>t. (if t = 0 then Root else Plain)
                   (Normal (if t = 0 then Fin 0 else vs ! (t - 1)) innovation_noise_scale
                      (''x_'' @ str t)))
                 [0..<nat num_timesteps])"
      by (simp only: latent_nodes [OF m(2) True])
    finally show ?thesis using True by (simp only: refl if_True)
  next
    case False
    then show ?thesis by (simp only: drive_prior m if_False)
  qed
qed

text \<open>Claim C2 on three timesteps.\<close>

theorem prior_yields_random_walk_witness:
  "(1::int) \<le> 3 \<and>
   drive (brownian_motion_prior_fn 3 (Fin 5)) [Fin 1, Fin 2, Fin 4] =
     Some [Root (Normal (Fin 0) (Fin 5) ''x_0''),
           Plain (Normal (Fin 1) (Fin 5) ''x_1''),
           Plain (Normal (Fin 2) (Fin 5) ''x_2'')]"
  using prior_yields_random_walk [of 3 "Fin 5" "[Fin 1, Fin 2, Fin 4]"]
  by (simp add: upt_rec str.simps digit_def)

text \<open>
  Claim C3: for \<^verbatim>\<open>num_timesteps\<close> at least 1 the process with unknown scales
  yields two root log-normal distributions, for the innovation and for the observation
  noise scale, and goes on as the base process does with the sampled innovation noise
  scale: its run is these two followed by the run of the base process, on exactly
  \<^verbatim>\<open>2 + num_timesteps\<close> samples.
\<close>

theorem unknown_scales_prior_prepends_scales:
  assumes "1 \<le> num_timesteps"
  shows "drive (brownian_motion_unknown_scales_prior_fn num_timesteps) vs =
     (case vs of
        innovation_noise_scale # observation_noise_scale # latents \<Rightarrow>
          map_option (\<lambda>ds. Root (LogNormal (Fin 0) (Fin 2) ''innovation_noise_scale'') #
                           Root (LogNormal (Fin 0) (Fin 2) ''observation_noise_scale'') # ds)
            (drive (brownian_motion_prior_fn num_timesteps innovation_noise_scale) latents)
      | _ \<Rightarrow> None) \<and>
     (drive (brownian_motion_unknown_scales_prior_fn num_timesteps) vs \<noteq> None) =
     (length vs = 2 + nat num_timesteps)"
proof -
  have m: "max 1 (nat num_timesteps) = nat num_timesteps"
    using assms by simp
  show ?thesis
    by (simp only: drive_unknown_scales drive_prior m) (auto split: list.splits)
qed

text \<open>Claim C3 on two timesteps.\<close>

theorem unknown_scales_prior_prepends_scales_witness:
  "(1::int) \<le> 2 \<and>
   drive (brownian_motion_unknown_scales_prior_fn 2) [Fin 7, Fin 8, Fin 1, Fin 3] =
     Some [Root (LogNormal (Fin 0) (Fin 2) ''innovation_noise_scale''),
           Root (LogNormal (Fin 0) (Fin 2) ''observation_noise_scale''),
           Root (Normal (Fin 0) (Fin 7) ''x_0''),
           Plain (Normal (Fin 1) (Fin 7) ''x_1'')]"
  using unknown_scales_prior_prepends_scales [of 2 "[Fin 7, Fin 8, Fin 1, Fin 3]"]

  by (simp add: brownian_motion_prior_fn_def upt_rec str.simps digit_def)

subsection \<open>Facts about the models\<close>

lemma variables_prior_loop: "length (variables (prior_loop ts s new)) = length ts"
  by (induction ts arbitrary: new) simp_all

lemma variables_prior:
  "length (variables (brownian_motion_prior_fn n s)) = max 1 (nat n)"
  by (simp add: brownian_motion_prior_fn_def variables_prior_loop)

lemma variables_unknown_scales:
  "length (variables (brownian_motion_unknown_scales_prior_fn n)) = 2 + max 1 (nat n)"
  by (simp add: brownian_motion_unknown_scales_prior_fn_def variables_prior)

lemma BrownianMotion_Inr:
  assumes "BrownianMotion locs i obs nm pn = Inr m"
  shows "locs \<noteq> []"
    and "m = \<lparr>prior_dist = brownian_motion_prior_fn (int (length locs)) i,
          log_likelihood_fn =
            (\<lambda>vs. brownian_motion_log_likelihood_fn vs locs (Some obs)),
          default_event_space_bijector = replicate (length locs) Identity,
          event_shape = event_shape_of (brownian_motion_prior_fn (int (length locs)) i),
          dtype = dtype_of (brownian_motion_prior_fn (int (length locs)) i),
          model_name = nm, model_pretty_name = pn,
          sample_transformations = [''identity'' \<mapsto>
            \<lparr>fn = stack, st_pretty_name = ''Identity'', st_dtype = None\<rparr>]\<rparr>"
  using assms
  by (auto simp: BrownianMotion_def Let_def struct_tuple_def dtype_of_def variables_prior
      and_then_def split: if_splits)

lemma BrownianMotion_nonempty:
  assumes "locs \<noteq> []"
  shows "\<exists>m. BrownianMotion locs i obs nm pn = Inr m"
  using assms
  by (cases locs) (simp_all add: BrownianMotion_def Let_def struct_tuple_def dtype_of_def
      variables_prior and_then_def)

lemma BrownianMotionUnknownScales_Inr:
  assumes "BrownianMotionUnknownScales locs nm pn = Inr m"
  shows "locs \<noteq> []"
    and "m = \<lparr>prior_dist = brownian_motion_unknown_scales_prior_fn (int (length locs)),
          log_likelihood_fn = (\<lambda>vs. brownian_motion_log_likelihood_fn vs locs None),
          default_event_space_bijector =
            Softplus # Softplus # replicate (length locs) Identity,
          event_shape =
            event_shape_of (brownian_motion_unknown_scales_prior_fn (int (length locs))),
          dtype = dtype_of (brownian_motion_unknown_scales_prior_fn (int (length locs))),
          model_name = nm, model_pretty_name = pn,
          sample_transformations = [''identity'' \<mapsto>
            \<lparr>fn = unknown_scales_ext_identity, st_pretty_name = ''Identity'',
             st_dtype = Some [''innovation_noise_scale'' \<mapsto> float32,
                              ''observation_noise_scale'' \<mapsto> float32,
                              ''locs'' \<mapsto> float32]\<rparr>]\<rparr>"
  using assms
  by (auto simp: BrownianMotionUnknownScales_def Let_def struct_tuple_def dtype_of_def
      variables_unknown_scales and_then_def split: if_splits)

text \<open>No model is constructed on an empty \<^verbatim>\<open>locs\<close> array.\<close>

lemma BrownianMotion_empty: "BrownianMotion [] i obs nm pn = Inl TypeError"
  by (simp add: BrownianMotion_def Let_def struct_tuple_def dtype_of_def variables_prior
      and_then_def)

lemma BrownianMotionUnknownScales_empty:
  "BrownianMotionUnknownScales [] nm pn = Inl TypeError"
  by (simp add: BrownianMotionUnknownScales_def Let_def struct_tuple_def dtype_of_def
      variables_unknown_scales and_then_def)

lemma BrownianMotionUnknownScales_nonempty:
  assumes "locs \<noteq> []"
  shows "\<exists>m. BrownianMotionUnknownScales locs nm pn = Inr m"
  using assms
  by (cases locs) (simp_all add: BrownianMotionUnknownScales_def Let_def struct_tuple_def
      dtype_of_def variables_unknown_scales and_then_def)




subsection \<open>One latent variable for each entry of the data\<close>



subsection \<open>The default event space bijector\<close>



subsection \<open>The identity sample transformation\<close>

text \<open>
  Claim C7: the transformation named identity of a model with fixed scales stacks the
  sampled latent positions into one array; that of a model with unknown scales gives
  the first component as \<^verbatim>\<open>innovation_noise_scale\<close>, the second as
  \<^verbatim>\<open>observation_noise_scale\<close> and the stack of the remaining ones as \<^verbatim>\<open>locs\<close>.
\<close>

theorem identity_sample_transformation:
  "(BrownianMotion locs i obs nm pn = Inr m \<or>
    BrownianMotionMissingMiddleObservations dataset = Inr m \<longrightarrow>
      (\<exists>st. sample_transformations m ''identity'' = Some st \<and>
            fn st params = stack params \<and>
            (params \<noteq> [] \<longrightarrow> fn st params = Inr params))) \<and>
   (BrownianMotionUnknownScales locs nm pn = Inr m' \<or>
    BrownianMotionUnknownScalesMissingMiddleObservations dataset = Inr m' \<longrightarrow>
      (\<exists>st. sample_transformations m' ''identity'' = Some st \<and>
            fn st (a # b # rest) =
              and_then (stack rest) (\<lambda>stacked. Inr
                [''innovation_noise_scale'' \<mapsto> Scalar a,
                 ''observation_noise_scale'' \<mapsto> Scalar b,
                 ''locs'' \<mapsto> Vector stacked]) \<and>
            (rest \<noteq> [] \<longrightarrow> fn st (a # b # rest) = Inr
                [''innovation_noise_scale'' \<mapsto> Scalar a,
                 ''observation_noise_scale'' \<mapsto> Scalar b,
                 ''locs'' \<mapsto> Vector rest])))"
proof (intro conjI impI)
  assume "BrownianMotion locs i obs nm pn = Inr m \<or>
    BrownianMotionMissingMiddleObservations dataset = Inr m"
  then obtain locs' i' obs' nm' pn' where "BrownianMotion locs' i' obs' nm' pn' = Inr m"
    unfolding BrownianMotionMissingMiddleObservations_def by blast
  from BrownianMotion_Inr(2) [OF this]
  have "sample_transformations m ''identity'' =
      Some \<lparr>fn = stack, st_pretty_name = ''Identity'', st_dtype = None\<rparr>"
    by simp
  then show "\<exists>st. sample_transformations m ''identity'' = Some st \<and>
            fn st params = stack params \<and> (params \<noteq> [] \<longrightarrow> fn st params = Inr params)"
    by (simp add: stack_def)
next
  assume "BrownianMotionUnknownScales locs nm pn = Inr m' \<or>
    BrownianMotionUnknownScalesMissingMiddleObservations dataset = Inr m'"
  then obtain locs' nm' pn' where "BrownianMotionUnknownScales locs' nm' pn' = Inr m'"
    unfolding BrownianMotionUnknownScalesMissingMiddleObservations_def by blast
  from BrownianMotionUnknownScales_Inr(2) [OF this]
  have "sample_transformations m' ''identity'' =
      Some \<lparr>fn = unknown_scales_ext_identity, st_pretty_name = ''Identity'',
             st_dtype = Some [''innovation_noise_scale'' \<mapsto> float32,
                              ''observation_noise_scale'' \<mapsto> float32,
                              ''locs'' \<mapsto> float32]\<rparr>"
    by simp
  then show "\<exists>st. sample_transformations m' ''identity'' = Some st \<and>
            fn st (a # b # rest) =
              and_then (stack rest) (\<lambda>stacked. Inr
                [''innovation_noise_scale'' \<mapsto> Scalar a,
                 ''observation_noise_scale'' \<mapsto> Scalar b,
                 ''locs'' \<mapsto> Vector stacked]) \<and>
            (rest \<noteq> [] \<longrightarrow> fn st (a # b # rest) = Inr
                [''innovation_noise_scale'' \<mapsto> Scalar a,
                 ''observation_noise_scale'' \<mapsto> Scalar b,
                 ''locs'' \<mapsto> Vector rest])"
    by (simp add: unknown_scales_ext_identity_def stack_def and_then_def)
qed

text \<open>Claim C7 on samples of models with two timesteps.\<close>

theorem identity_sample_transformation_witness:
  "\<not> isl (BrownianMotion [Fin 1, NaN] (Fin 1) (Fin 2) ''bm'' ''BM'') \<and>
   (\<exists>st. sample_transformations
       (projr (BrownianMotion [Fin 1, NaN] (Fin 1) (Fin 2) ''bm'' ''BM'')) ''identity'' =
         Some st \<and>
       fn st [Fin 4, Fin 5] = Inr [Fin 4, Fin 5]) \<and>
   \<not> isl (BrownianMotionUnknownScales [Fin 1, NaN] ''bm'' ''BM'') \<and>
   (\<exists>st. sample_transformations
       (projr (BrownianMotionUnknownScales [Fin 1, NaN] ''bm'' ''BM'')) ''identity'' =
         Some st \<and>
       fn st [Fin 7, Fin 8, Fin 4, Fin 5] = Inr
         [''innovation_noise_scale'' \<mapsto> Scalar (Fin 7),
          ''observation_noise_scale'' \<mapsto> Scalar (Fin 8),
          ''locs'' \<mapsto> Vector [Fin 4, Fin 5]])"
proof -
  obtain m where m: "BrownianMotion [Fin 1, NaN] (Fin 1) (Fin 2) ''bm'' ''BM'' = Inr m"
    using BrownianMotion_nonempty [of "[Fin 1, NaN]"] by blast
  obtain m' where m': "BrownianMotionUnknownScales [Fin 1, NaN] ''bm'' ''BM'' = Inr m'"
    using BrownianMotionUnknownScales_nonempty [of "[Fin 1, NaN]"] by blast
  show ?thesis
    using identity_sample_transformation [of "[Fin 1, NaN]" "Fin 1" "Fin 2" "''bm''" "''BM''" m
        _ "[Fin 4, Fin 5]" m' "Fin 7" "Fin 8" "[Fin 4, Fin 5]"]
    by (auto simp: m m')
qed

subsection \<open>The likelihood method reads the model and leaves it as it is\<close>



end
